theory Spec2Isabelle
  imports Main "HOL-Library.Char_ord" "HOL-Library.List_Lexorder"
begin

section \<open>Values, exceptions and the outside world\<close>

text \<open>
  A JavaScript exception is a value; the only thing the code ever reads from one is its
  \<^verbatim>\<open>code\<close> property (\<^verbatim>\<open>e.code === 'auth/email-already-exists'\<close>), which may be absent.
  A call that can reject is modelled with a result of type \<open>exn + 'a\<close>, \<open>Inl\<close> being the
  rejection.
\<close>

datatype exn = Exn (exn_code: "string option")

text \<open>
  A profile document of the \<^verbatim>\<open>users\<close> collection holds what \<^verbatim>\<open>signUp\<close> writes,
  \<^verbatim>\<open>{name, email}\<close>. A \<^verbatim>\<open>User\<close> is that document with the document id added
  (\<^verbatim>\<open>{...userRecord.data(), id: userRecord.id}\<close>).
\<close>

record UserData =
  name :: string
  email :: string

record User = UserData +
  id :: string

text \<open>
  \<^verbatim>\<open>SignUpParams\<close> is \<^verbatim>\<open>{uid, name, email, password}\<close>; \<^verbatim>\<open>name\<close> and \<^verbatim>\<open>email\<close> are the
  fields it shares with the profile document.
\<close>

record SignUpParams = UserData +
  uid :: string
  password :: string

record SignInParams =
  signin_email :: string
  idToken :: string

text \<open>
  The values the actions return. \<^verbatim>\<open>signUp\<close> and \<^verbatim>\<open>signIn\<close> build
  \<^verbatim>\<open>{success, message}\<close>, \<^verbatim>\<open>createFeedback\<close> builds \<^verbatim>\<open>{success, feedbackId}\<close> or
  \<^verbatim>\<open>{success}\<close>: an absent \<^verbatim>\<open>feedbackId\<close> is \<open>None\<close>.
\<close>

record ActionResult =
  success :: bool

record SignResult = ActionResult +
  message :: string

record FeedbackResult = ActionResult +
  feedbackId :: "string option"

text \<open>The cookie that \<^verbatim>\<open>setSessionCookie\<close> stores, with the options it passes.\<close>

record Cookie =
  cookie_value :: string
  maxAge :: nat
  httpOnly :: bool
  secure :: bool
  path :: string
  sameSite :: string

text \<open>
  A document of the \<^verbatim>\<open>interviews\<close> collection, with the fields the queries read
  (\<^verbatim>\<open>userId\<close>, \<^verbatim>\<open>finalized\<close>, \<^verbatim>\<open>createdAt\<close>, an ISO timestamp string) and its
  questions. An \<^verbatim>\<open>Interview\<close> is the data with the document id
  (\<^verbatim>\<open>{id: doc.id, ...doc.data()}\<close>).
\<close>

record InterviewData =
  interview_userId :: string
  finalized :: bool
  createdAt :: string
  interview_questions :: "string list"

record Interview = InterviewData +
  interview_id :: string

text \<open>
  One transcript entry, \<^verbatim>\<open>{role, content}\<close>; at run time a role is the string
  \<^verbatim>\<open>user\<close>, \<^verbatim>\<open>system\<close> or \<^verbatim>\<open>assistant\<close>.
\<close>

record SavedMessage =
  role :: string
  content :: string

text \<open>
  \<^verbatim>\<open>interviewId\<close> and \<^verbatim>\<open>userId\<close> are optional properties of the agent component,
  passed on with a non-null assertion (\<^verbatim>\<open>interviewId!\<close>), which checks nothing at run
  time: \<open>None\<close> is \<^verbatim>\<open>undefined\<close>.
\<close>

record CallIds =
  interviewId :: "string option"
  userId :: "string option"

record CreateFeedbackParams = CallIds +
  transcript :: "SavedMessage list"

text \<open>The object the hosted model returns, and the feedback document stored from it.\<close>

record FeedbackObject =
  totalScore :: int
  categoryScores :: "(string \<times> int) list"
  strengths :: "string list"
  areasForImprovement :: "string list"
  finalAssessment :: string

record FeedbackDoc = FeedbackObject +
  feedback_interviewId :: "string option"
  feedback_userId :: "string option"
  feedback_createdAt :: string

text \<open>
  The mutable world of the server actions: the request's cookie store (what
  \<^verbatim>\<open>await cookies()\<close> gives, by cookie name), the \<^verbatim>\<open>users\<close> collection of the
  document store (by document id), and the \<^verbatim>\<open>interviews\<close> and \<^verbatim>\<open>feedback\<close>
  collections as lists of documents (id and data) in the store's own order.
\<close>

record World =
  cookieStore :: "string \<rightharpoonup> Cookie"
  users :: "string \<rightharpoonup> UserData"
  interviews :: "(string \<times> InterviewData) list"
  feedback :: "(string \<times> FeedbackDoc) list"

text \<open>
  The external collaborators, whose replies the code cannot control: the identity
  provider (\<^verbatim>\<open>auth\<close>), the faults of the document store, the environment. Each is a
  parameter of the model, so every theorem holds for every behaviour of theirs.
  \<^item> \<open>getUserByEmail\<close>: the reply to \<^verbatim>\<open>auth.getUserByEmail(email)\<close>: a rejection, a
    user record (its uid), or a falsy value (\<open>None\<close>), which is the case the code tests
    with \<^verbatim>\<open>!userRecord\<close>;
  \<^item> \<open>createSessionCookie\<close>: the reply to \<^verbatim>\<open>auth.createSessionCookie(idToken, {expiresIn})\<close>;
  \<^item> \<open>verifySessionCookie\<close>: the reply to
    \<^verbatim>\<open>auth.verifySessionCookie(sessionCookie, true)\<close>: a rejection or the decoded
    claims' \<^verbatim>\<open>uid\<close>;
  \<^item> \<open>users_get_fault\<close>, \<open>users_set_fault\<close>: whether reading, or writing, the
    profile document of an id rejects (a rejected write writes nothing);
  \<^item> \<open>production\<close>: \<^verbatim>\<open>process.env.NODE_ENV === 'production'\<close>;
  \<^item> \<open>cookies_fault\<close>: whether \<^verbatim>\<open>await cookies()\<close> rejects instead of giving the
    request's cookie store (as it does when there is no request to read from);
  \<^item> \<open>generateObject\<close>: the reply of the hosted model to the prompt built around a
    formatted transcript: a rejection (network failure, schema violation) or an object;
  \<^item> \<open>feedback_add_fault\<close>: whether adding a feedback document rejects;
  \<^item> \<open>autoId\<close>: the id the store gives the \<open>n\<close>-th document added to a collection;
  \<^item> \<open>now\<close>: \<^verbatim>\<open>new Date().toISOString()\<close>.
\<close>

record Services =
  getUserByEmail :: "string \<Rightarrow> exn + string option"
  createSessionCookie :: "string \<Rightarrow> nat \<Rightarrow> exn + string"
  verifySessionCookie :: "string \<Rightarrow> exn + string"
  users_get_fault :: "string \<Rightarrow> exn option"
  users_set_fault :: "string \<Rightarrow> exn option"
  production :: bool
  cookies_fault :: "exn option"
  generateObject :: "string \<Rightarrow> exn + FeedbackObject"
  feedback_add_fault :: "FeedbackDoc \<Rightarrow> exn option"
  autoId :: "nat \<Rightarrow> string"
  now :: string

definition ONE_WEEK :: nat where
  "ONE_WEEK = 60 * 60 * 24 * 7"

section \<open>The authentication actions (\<^verbatim>\<open>src/lib/actions/auth.action.ts\<close>)\<close>

subsection \<open>The document store's \<^verbatim>\<open>users\<close> collection\<close>

text \<open>
  \<^verbatim>\<open>db.collection('users').doc(uid).get()\<close>: a rejection, or a snapshot, which is the
  document's data when it exists (\<^verbatim>\<open>snapshot.exists\<close> is \<open>Some\<close>) and \<open>None\<close> otherwise.
\<close>

definition users_doc_get ::
  "Services \<Rightarrow> World \<Rightarrow> string \<Rightarrow> exn + UserData option" where
  "users_doc_get sv w docId =
     (case users_get_fault sv docId of
        Some e \<Rightarrow> Inl e
      | None \<Rightarrow> Inr (users w docId))"

text \<open>\<^verbatim>\<open>db.collection('users').doc(uid).set(data)\<close>: a rejection, or the world with the
  document written.\<close>

definition users_doc_set ::
  "Services \<Rightarrow> World \<Rightarrow> string \<Rightarrow> UserData \<Rightarrow> exn + World" where
  "users_doc_set sv w docId d =
     (case users_set_fault sv docId of
        Some e \<Rightarrow> Inl e
      | None \<Rightarrow> Inr (w\<lparr>users := (users w)(docId \<mapsto> d)\<rparr>))"

subsection \<open>\<^verbatim>\<open>signUp\<close>\<close>

text \<open>The \<^verbatim>\<open>catch\<close> block of \<^verbatim>\<open>signUp\<close>.\<close>

definition signUp_catch :: "exn \<Rightarrow> SignResult" where
  "signUp_catch e =
     (if exn_code e = Some ''auth/email-already-exists''
      then \<lparr>success = False, message = ''This email is already in use.''\<rparr>
      else \<lparr>success = False, message = ''Failed to create an account''\<rparr>)"

text \<open>
  \<^verbatim>\<open>signUp\<close> returns its result and the world it leaves. The \<^verbatim>\<open>try\<close> block reads the
  document of \<^verbatim>\<open>uid\<close>; if it exists it returns at once, otherwise it writes
  \<^verbatim>\<open>{name, email}\<close> under \<^verbatim>\<open>uid\<close>. Either store call may reject, which the \<^verbatim>\<open>catch\<close>
  block turns into a result.
\<close>

definition signUp ::
  "Services \<Rightarrow> SignUpParams \<Rightarrow> World \<Rightarrow> SignResult \<times> World" where
  "signUp sv params w =
     (case users_doc_get sv w (uid params) of
        Inl e \<Rightarrow> (signUp_catch e, w)
      | Inr (Some userRecord) \<Rightarrow>
          (\<lparr>success = False, message = ''User already exists. Please sign in instead.''\<rparr>, w)
      | Inr None \<Rightarrow>
          (case users_doc_set sv w (uid params)
                  \<lparr>name = name params, email = email params\<rparr> of
             Inl e \<Rightarrow> (signUp_catch e, w)
           | Inr w' \<Rightarrow>
               (\<lparr>success = True, message = ''Account created successfully. Please sign in.''\<rparr>,
                w')))"

subsection \<open>\<^verbatim>\<open>setSessionCookie\<close> and \<^verbatim>\<open>signIn\<close>\<close>

text \<open>\<^verbatim>\<open>await cookies()\<close>: a rejection, or the cookie store of the request.\<close>

definition cookies :: "Services \<Rightarrow> World \<Rightarrow> exn + (string \<rightharpoonup> Cookie)" where
  "cookies sv w =
     (case cookies_fault sv of
        Some e \<Rightarrow> Inl e
      | None \<Rightarrow> Inr (cookieStore w))"

text \<open>
  \<^verbatim>\<open>setSessionCookie\<close> obtains the cookie store, asks the provider for a session
  cookie that expires in \<^verbatim>\<open>ONE_WEEK * 1000\<close> milliseconds and stores it under the name
  \<^verbatim>\<open>session\<close>. It has no \<^verbatim>\<open>try\<close> of its own: a rejection of \<^verbatim>\<open>cookies()\<close> or of the
  provider is its rejection.
\<close>

definition setSessionCookie ::
  "Services \<Rightarrow> string \<Rightarrow> World \<Rightarrow> exn + World" where
  "setSessionCookie sv tok w =
     (case cookies sv w of
        Inl e \<Rightarrow> Inl e
      | Inr store \<Rightarrow>
          (case createSessionCookie sv tok (ONE_WEEK * 1000) of
             Inl e \<Rightarrow> Inl e
           | Inr sessionCookie \<Rightarrow>
               Inr (w\<lparr>cookieStore := store(''session'' \<mapsto>
                      \<lparr>cookie_value = sessionCookie, maxAge = ONE_WEEK, httpOnly = True,
                       secure = production sv, path = ''/'', sameSite = ''lax''\<rparr>)\<rparr>)))"

text \<open>
  \<^verbatim>\<open>signIn\<close>. The result is \<open>Some\<close> of the object a \<^verbatim>\<open>return\<close> statement builds, and
  \<open>None\<close> when the function runs off its end without a \<^verbatim>\<open>return\<close>, where JavaScript
  yields \<^verbatim>\<open>undefined\<close>: that is the path on which \<^verbatim>\<open>setSessionCookie\<close> succeeds.
\<close>

definition signIn ::
  "Services \<Rightarrow> SignInParams \<Rightarrow> World \<Rightarrow> SignResult option \<times> World" where
  "signIn sv params w =
     (case getUserByEmail sv (signin_email params) of
        Inl e \<Rightarrow> (Some \<lparr>success = False, message = ''Failed to log into an account.''\<rparr>, w)
      | Inr None \<Rightarrow>
          (Some \<lparr>success = False,
                 message = ''User does not exist. Create an account instead.''\<rparr>, w)
      | Inr (Some userRecord) \<Rightarrow>
          (case setSessionCookie sv (idToken params) w of
             Inl e \<Rightarrow>
               (Some \<lparr>success = False, message = ''Failed to log into an account.''\<rparr>, w)
           | Inr w' \<Rightarrow> (None, w')))"

subsection \<open>\<^verbatim>\<open>getCurrentUser\<close> and \<^verbatim>\<open>isAuthenticated\<close>\<close>

text \<open>
  The \<^verbatim>\<open>try\<close> block of \<^verbatim>\<open>getCurrentUser\<close>, for a session cookie value: verify it,
  read the profile of the decoded \<^verbatim>\<open>uid\<close>, return \<^verbatim>\<open>null\<close> if it does not exist and
  the profile with the document id otherwise. A rejection of either call leaves the
  block as \<open>Inl\<close>.
\<close>

definition getCurrentUser_try ::
  "Services \<Rightarrow> World \<Rightarrow> string \<Rightarrow> exn + User option" where
  "getCurrentUser_try sv w sessionCookie =
     (case verifySessionCookie sv sessionCookie of
        Inl e \<Rightarrow> Inl e
      | Inr decodedUid \<Rightarrow>
          (case users_doc_get sv w decodedUid of
             Inl e \<Rightarrow> Inl e
           | Inr None \<Rightarrow> Inr None
           | Inr (Some d) \<Rightarrow>
               Inr (Some \<lparr>name = name d, email = email d, id = decodedUid\<rparr>)))"

text \<open>
  \<^verbatim>\<open>getCurrentUser\<close>: \<^verbatim>\<open>await cookies()\<close> stands before the \<^verbatim>\<open>try\<close> block, so its
  rejection is the function's. \<^verbatim>\<open>cookieStore.get('session')?.value\<close> is absent when
  there is no such cookie; \<^verbatim>\<open>!sessionCookie\<close> also holds for the empty string. The
  \<^verbatim>\<open>catch\<close> block logs and returns \<^verbatim>\<open>null\<close>. The result is \<open>Inl\<close> if the function
  throws, \<open>Inr None\<close> for \<^verbatim>\<open>null\<close>.
\<close>

definition getCurrentUser :: "Services \<Rightarrow> World \<Rightarrow> exn + User option" where
  "getCurrentUser sv w =
     (case cookies sv w of
        Inl e \<Rightarrow> Inl e
      | Inr store \<Rightarrow>
          (case map_option cookie_value (store ''session'') of
             None \<Rightarrow> Inr None
           | Some sessionCookie \<Rightarrow>
               if sessionCookie = [] then Inr None
               else (case getCurrentUser_try sv w sessionCookie of
                       Inl e \<Rightarrow> Inr None
                     | Inr r \<Rightarrow> Inr r)))"

text \<open>\<^verbatim>\<open>isAuthenticated\<close> awaits \<^verbatim>\<open>getCurrentUser\<close> with no \<^verbatim>\<open>try\<close> around it, so it
  throws if that does, and returns \<^verbatim>\<open>!!user\<close> otherwise.\<close>

definition isAuthenticated :: "Services \<Rightarrow> World \<Rightarrow> exn + bool" where
  "isAuthenticated sv w =
     (case getCurrentUser sv w of
        Inl e \<Rightarrow> Inl e
      | Inr u \<Rightarrow> Inr (u \<noteq> None))"

section \<open>The interview and feedback actions (second module of \<^verbatim>\<open>auth.action.ts\<close>)\<close>

subsection \<open>Queries on a collection\<close>

text \<open>
  A query of the document store is built by chained calls and run by \<^verbatim>\<open>get()\<close>. The
  builder records the filters (\<^verbatim>\<open>where\<close>), the descending sort key (\<^verbatim>\<open>orderBy(f, 'desc')\<close>,
  the only direction the code uses) and the cap (\<^verbatim>\<open>limit\<close>).
\<close>

record 'd Query =
  q_docs :: "(string \<times> 'd) list"
  q_where :: "('d \<Rightarrow> bool) list"
  q_orderBy_desc :: "('d \<Rightarrow> string) option"
  q_limit :: "nat option"

definition collection :: "(string \<times> 'd) list \<Rightarrow> 'd Query" where
  "collection ds = \<lparr>q_docs = ds, q_where = [], q_orderBy_desc = None, q_limit = None\<rparr>"

definition orderBy_desc :: "('d \<Rightarrow> string) \<Rightarrow> 'd Query \<Rightarrow> 'd Query" where
  "orderBy_desc k q = q\<lparr>q_orderBy_desc := Some k\<rparr>"

definition where_q :: "('d \<Rightarrow> bool) \<Rightarrow> 'd Query \<Rightarrow> 'd Query" where
  "where_q f q = q\<lparr>q_where := q_where q @ [f]\<rparr>"

definition limit_q :: "nat \<Rightarrow> 'd Query \<Rightarrow> 'd Query" where
  "limit_q n q = q\<lparr>q_limit := Some n\<rparr>"

text \<open>
  Descending order on a key, by insertion; documents with equal keys keep the store's
  order. Timestamps are ISO strings, compared as strings.
\<close>

fun insert_desc :: "('a \<Rightarrow> string) \<Rightarrow> 'a \<Rightarrow> 'a list \<Rightarrow> 'a list" where
  "insert_desc k x [] = [x]"
| "insert_desc k x (y # ys) =
     (if k y \<le> k x then x # y # ys else y # insert_desc k x ys)"

definition sort_desc :: "('a \<Rightarrow> string) \<Rightarrow> 'a list \<Rightarrow> 'a list" where
  "sort_desc k xs = foldr (insert_desc k) xs []"

text \<open>
  \<^verbatim>\<open>get()\<close>: the documents that pass every filter, in the requested order, cut at
  the cap, whatever the order of the builder calls.
\<close>

definition get_q :: "'d Query \<Rightarrow> (string \<times> 'd) list" where
  "get_q q =
     (let matching = filter (\<lambda>doc. list_all (\<lambda>f. f (snd doc)) (q_where q)) (q_docs q);
          ordered = (case q_orderBy_desc q of
                       None \<Rightarrow> matching
                     | Some k \<Rightarrow> sort_desc (\<lambda>doc. k (snd doc)) matching)
      in case q_limit q of None \<Rightarrow> ordered | Some n \<Rightarrow> take n ordered)"

subsection \<open>\<^verbatim>\<open>getLatestInterviews\<close>\<close>

record GetLatestInterviewsParams =
  caller_userId :: string
  limit :: "nat option"

text \<open>\<^verbatim>\<open>{id: doc.id, ...doc.data()}\<close>\<close>

definition toInterview :: "string \<times> InterviewData \<Rightarrow> Interview" where
  "toInterview doc =
     \<lparr>interview_userId = interview_userId (snd doc), finalized = finalized (snd doc),
      createdAt = createdAt (snd doc), interview_questions = interview_questions (snd doc),
      interview_id = fst doc\<rparr>"

text \<open>
  \<^verbatim>\<open>const { userId, limit = 20 } = params\<close>, then the query
  \<^verbatim>\<open>orderBy('createdAt', 'desc')\<close>, \<^verbatim>\<open>where('finalized', '==', true)\<close>,
  \<^verbatim>\<open>where('userId', '!=', userId)\<close>, \<^verbatim>\<open>limit(limit)\<close>, and the documents mapped to
  interviews.
\<close>

definition getLatestInterviews :: "GetLatestInterviewsParams \<Rightarrow> World \<Rightarrow> Interview list" where
  "getLatestInterviews params w =
     (let lim = (case limit params of None \<Rightarrow> 20 | Some n \<Rightarrow> n)
      in map toInterview
           (get_q (limit_q lim
              (where_q (\<lambda>d. interview_userId d \<noteq> caller_userId params)
                (where_q (\<lambda>d. finalized d = True)
                  (orderBy_desc createdAt (collection (interviews w))))))))"

subsection \<open>\<^verbatim>\<open>createFeedback\<close>\<close>

text \<open>The transcript as the prompt shows it: one \<^verbatim>\<open>- role: content\<close> line per entry,
  each ended by a newline.\<close>

definition formattedTranscript :: "SavedMessage list \<Rightarrow> string" where
  "formattedTranscript t =
     concat (map (\<lambda>sentence. ''- '' @ role sentence @ '': '' @ content sentence @ [CHR 0x0A]) t)"

text \<open>
  \<^verbatim>\<open>db.collection('feedback').add(doc)\<close>: a rejection, or the new document's id and
  the world with the document appended.
\<close>

definition feedback_add :: "Services \<Rightarrow> World \<Rightarrow> FeedbackDoc \<Rightarrow> exn + string \<times> World" where
  "feedback_add sv w d =
     (case feedback_add_fault sv d of
        Some e \<Rightarrow> Inl e
      | None \<Rightarrow>
          (let newId = autoId sv (length (feedback w))
           in Inr (newId, w\<lparr>feedback := feedback w @ [(newId, d)]\<rparr>)))"

text \<open>
  \<^verbatim>\<open>createFeedback\<close>: the whole body is one \<^verbatim>\<open>try\<close>; a rejection of the hosted
  model or of the store ends in the \<^verbatim>\<open>catch\<close> block, which returns
  \<^verbatim>\<open>{ success: false }\<close>. The fixed text of the prompt is left to the
  \<open>generateObject\<close> parameter; the transcript is the part of it that varies.
\<close>

definition createFeedback ::
  "Services \<Rightarrow> CreateFeedbackParams \<Rightarrow> World \<Rightarrow> FeedbackResult \<times> World" where
  "createFeedback sv params w =
     (case generateObject sv (formattedTranscript (transcript params)) of
        Inl e \<Rightarrow> (\<lparr>success = False, feedbackId = None\<rparr>, w)
      | Inr object \<Rightarrow>
          (case feedback_add sv w
                  \<lparr>totalScore = totalScore object, categoryScores = categoryScores object,
                   strengths = strengths object,
                   areasForImprovement = areasForImprovement object,
                   finalAssessment = finalAssessment object,
                   feedback_interviewId = interviewId params,
                   feedback_userId = userId params,
                   feedback_createdAt = now sv\<rparr> of
             Inl e \<Rightarrow> (\<lparr>success = False, feedbackId = None\<rparr>, w)
           | Inr (newId, w') \<Rightarrow> (\<lparr>success = True, feedbackId = Some newId\<rparr>, w')))"

section \<open>The voice agent component (\<^verbatim>\<open>Agent\<close>, \<^verbatim>\<open>src/unnamed/part_000\<close>)\<close>

subsection \<open>State, properties, events and commands\<close>

datatype CallStatus = INACTIVE | CONNECTING | ACTIVE | FINISHED

text \<open>The three \<^verbatim>\<open>useState\<close> cells of the component.\<close>

record AgentState =
  isSpeaking :: bool
  callStatus :: CallStatus
  messages :: "SavedMessage list"

text \<open>
  The component's properties; \<^verbatim>\<open>type\<close> is the call type, a string compared with
  \<^verbatim>\<open>'generate'\<close>. \<open>workflowId\<close> is \<^verbatim>\<open>process.env.NEXT_PUBLIC_VAPI_WORKFLOW_ID\<close>.
\<close>

record AgentProps = CallIds +
  userName :: string
  callType :: string
  questions :: "string list option"
  workflowId :: "string option"

text \<open>
  An inbound \<^verbatim>\<open>message\<close> event of the voice channel, with the properties
  \<^verbatim>\<open>onMessage\<close> reads: \<^verbatim>\<open>type\<close>, \<^verbatim>\<open>transcriptType\<close>, \<^verbatim>\<open>role\<close>, \<^verbatim>\<open>transcript\<close>. A
  message without a \<^verbatim>\<open>transcriptType\<close> is one whose \<open>transcriptType\<close> is not
  \<^verbatim>\<open>final\<close>.
\<close>

record Message =
  message_type :: string
  transcriptType :: string
  message_role :: string
  message_transcript :: string

text \<open>
  What reaches the component: the six events of the voice channel it listens to, the
  two button handlers, and the return of an awaited \<^verbatim>\<open>createFeedback\<close> call.
\<close>

datatype Event =
    CallStart
  | CallEnd
  | OnMessage Message
  | SpeechStart
  | SpeechEnd
  | OnError string
  | Call
  | Disconnect
  | FeedbackReturned

text \<open>
  What the component does to the outside: starting the channel (with the workflow id and
  \<^verbatim>\<open>{username, userid}\<close>, or with the interviewer and \<^verbatim>\<open>{questions}\<close>), stopping
  it, calling the \<^verbatim>\<open>createFeedback\<close> action, navigating, logging.
\<close>

datatype Command =
    VapiStartWorkflow "string option" string "string option"
  | VapiStartInterviewer string
  | VapiStop
  | CreateFeedback CreateFeedbackParams
  | RouterPush string
  | ConsoleLog string

definition initialState :: AgentState where
  "initialState = \<lparr>isSpeaking = False, callStatus = INACTIVE, messages = []\<rparr>"

subsection \<open>The listeners and the handlers\<close>

definition onCallStart :: "AgentState \<Rightarrow> AgentState" where
  "onCallStart s = s\<lparr>callStatus := ACTIVE\<rparr>"

definition onCallEnd :: "AgentState \<Rightarrow> AgentState" where
  "onCallEnd s = s\<lparr>callStatus := FINISHED\<rparr>"

definition onMessage :: "Message \<Rightarrow> AgentState \<Rightarrow> AgentState" where
  "onMessage m s =
     (if message_type m = ''transcript'' \<and> transcriptType m = ''final''
      then s\<lparr>messages := messages s @
                [\<lparr>role = message_role m, content = message_transcript m\<rparr>]\<rparr>
      else s)"

definition onSpeechStart :: "AgentState \<Rightarrow> AgentState" where
  "onSpeechStart s = s\<lparr>isSpeaking := True\<rparr>"

definition onSpeechEnd :: "AgentState \<Rightarrow> AgentState" where
  "onSpeechEnd s = s\<lparr>isSpeaking := False\<rparr>"

text \<open>\<^verbatim>\<open>questions.map((question) => `- ${question}`).join('\n')\<close>\<close>

fun join_lines :: "string list \<Rightarrow> string" where
  "join_lines [] = []"
| "join_lines [x] = x"
| "join_lines (x # y # ys) = x @ [CHR 0x0A] @ join_lines (y # ys)"

definition formattedQuestions :: "string list option \<Rightarrow> string" where
  "formattedQuestions qs =
     (case qs of
        None \<Rightarrow> []
      | Some l \<Rightarrow> join_lines (map (\<lambda>question. ''- '' @ question) l))"

definition handleCall :: "AgentProps \<Rightarrow> AgentState \<Rightarrow> AgentState \<times> Command list" where
  "handleCall props s =
     (s\<lparr>callStatus := CONNECTING\<rparr>,
      if callType props = ''generate''
      then [VapiStartWorkflow (workflowId props) (userName props) (userId props)]
      else [VapiStartInterviewer (formattedQuestions (questions props))])"

text \<open>
  \<^verbatim>\<open>handleDisconnect\<close> sets \<^verbatim>\<open>FINISHED\<close> first and then asks the channel to stop. The
  page renders its button only in \<^verbatim>\<open>ACTIVE\<close>; the handlers are modelled for every
  state they can be called in.
\<close>

definition handleDisconnect :: "AgentState \<Rightarrow> AgentState \<times> Command list" where
  "handleDisconnect s = (s\<lparr>callStatus := FINISHED\<rparr>, [VapiStop])"

text \<open>
  One event: the new state of the component and the commands of its handler. The
  return of an awaited call sets no state; what runs then is \<open>afterCreateFeedback\<close>
  below.
\<close>

fun handle :: "AgentProps \<Rightarrow> Event \<Rightarrow> AgentState \<Rightarrow> AgentState \<times> Command list" where
  "handle props CallStart s = (onCallStart s, [])"
| "handle props CallEnd s = (onCallEnd s, [])"
| "handle props (OnMessage m) s = (onMessage m s, [])"
| "handle props SpeechStart s = (onSpeechStart s, [])"
| "handle props SpeechEnd s = (onSpeechEnd s, [])"
| "handle props (OnError e) s = (s, [ConsoleLog ''Error''])"
| "handle props Call s = handleCall props s"
| "handle props Disconnect s = handleDisconnect s"
| "handle props FeedbackReturned s = (s, [])"

subsection \<open>The feedback effect\<close>

text \<open>
  A configuration: the component's state, the results of the \<^verbatim>\<open>createFeedback\<close> calls
  that are awaited and have not returned yet (oldest first), and the server's world.
\<close>

record Config =
  agent :: AgentState
  inflight :: "FeedbackResult list"
  world :: World

text \<open>
  \<^verbatim>\<open>handleGenerateFeedback(messages)\<close> is asynchronous. Up to its \<^verbatim>\<open>await\<close> it logs and
  calls the server action with \<^verbatim>\<open>interviewId\<close>, \<^verbatim>\<open>userId\<close> and the transcript; the
  action runs on the server's world, and its result is awaited.
\<close>

definition handleGenerateFeedback ::
  "Services \<Rightarrow> AgentProps \<Rightarrow> SavedMessage list \<Rightarrow> Config \<Rightarrow> Config \<times> Command list" where
  "handleGenerateFeedback sv props ms c =
     (let params = \<lparr>interviewId = interviewId props, userId = userId props,
                    transcript = ms\<rparr>;
          (r, w') = createFeedback sv params (world c)
      in (c\<lparr>inflight := inflight c @ [r], world := w'\<rparr>,
          [ConsoleLog ''Generate feedback here.'', CreateFeedback params]))"

text \<open>
  After the \<^verbatim>\<open>await\<close>: navigate to the feedback page if the result has \<^verbatim>\<open>success\<close>
  and a truthy \<^verbatim>\<open>feedbackId\<close>, and to the landing page otherwise.
\<close>

definition feedbackPath :: "string option \<Rightarrow> string" where
  "feedbackPath i =
     ''/interview/'' @ (case i of None \<Rightarrow> ''undefined'' | Some x \<Rightarrow> x) @ ''/feedback''"

definition afterCreateFeedback :: "AgentProps \<Rightarrow> FeedbackResult \<Rightarrow> Command list" where
  "afterCreateFeedback props r =
     (if success r \<and> (case feedbackId r of None \<Rightarrow> False | Some i \<Rightarrow> i \<noteq> [])
      then [RouterPush (feedbackPath (interviewId props))]
      else [ConsoleLog ''Error saving feedback'', RouterPush ''/''])"

text \<open>The body of the effect \<^verbatim>\<open>useEffect(..., [messages, callStatus, type, userId])\<close>.\<close>

definition feedbackEffect :: "Services \<Rightarrow> AgentProps \<Rightarrow> Config \<Rightarrow> Config \<times> Command list" where
  "feedbackEffect sv props c =
     (if callStatus (agent c) = FINISHED
      then (if callType props = ''generate''
            then (c, [RouterPush ''/''])
            else handleGenerateFeedback sv props (messages (agent c)) c)
      else (c, []))"

text \<open>
  After a render the effect runs again when one of its dependencies has changed. The
  properties \<^verbatim>\<open>type\<close> and \<^verbatim>\<open>userId\<close> are fixed; \<^verbatim>\<open>callStatus\<close> changes when a listener
  sets another value; \<^verbatim>\<open>messages\<close> changes when \<^verbatim>\<open>onMessage\<close> appends an entry (a new
  array, and a longer list).
\<close>

definition depsChanged :: "AgentState \<Rightarrow> AgentState \<Rightarrow> bool" where
  "depsChanged s s' = (\<not> (messages s' = messages s \<and> callStatus s' = callStatus s))"

subsection \<open>Runs of the component\<close>

text \<open>
  When an awaited \<^verbatim>\<open>createFeedback\<close> call returns, the rest of
  \<^verbatim>\<open>handleGenerateFeedback\<close> runs with its result; calls return in the order they were
  made.
\<close>

definition resume :: "AgentProps \<Rightarrow> Event \<Rightarrow> Config \<Rightarrow> Config \<times> Command list" where
  "resume props e c =
     (case e of
        FeedbackReturned \<Rightarrow>
          (case inflight c of
             [] \<Rightarrow> (c, [])
           | r # rs \<Rightarrow> (c\<lparr>inflight := rs\<rparr>, afterCreateFeedback props r))
      | _ \<Rightarrow> (c, []))"

text \<open>
  One event, one render: an awaited call resumes, or the handler updates the state;
  then the effect runs if its dependencies changed. The result is the new
  configuration and the commands issued, in order.
\<close>

definition step :: "Services \<Rightarrow> AgentProps \<Rightarrow> Event \<Rightarrow> Config \<Rightarrow> Config \<times> Command list" where
  "step sv props e c =
     (let (c1, rs) = resume props e c;
          (s', cs) = handle props e (agent c1)
      in if depsChanged (agent c1) s'
         then (let (c2, es) = feedbackEffect sv props (c1\<lparr>agent := s'\<rparr>)
               in (c2, rs @ cs @ es))
         else (c1\<lparr>agent := s'\<rparr>, rs @ cs))"

fun run :: "Services \<Rightarrow> AgentProps \<Rightarrow> Event list \<Rightarrow> Config \<Rightarrow> Config \<times> Command list" where
  "run sv props [] c = (c, [])"
| "run sv props (e # es) c =
     (let (c', cs) = step sv props e c;
          (c'', cs') = run sv props es c'
      in (c'', cs @ cs'))"

text \<open>The call states a run passes through, one per event.\<close>

fun statuses :: "Services \<Rightarrow> AgentProps \<Rightarrow> Event list \<Rightarrow> Config \<Rightarrow> CallStatus list" where
  "statuses sv props [] c = []"
| "statuses sv props (e # es) c =
     (let c' = fst (step sv props e c)
      in callStatus (agent c') # statuses sv props es c')"

text \<open>The calls of the feedback action among the commands of a run.\<close>

fun feedbackCalls :: "Command list \<Rightarrow> CreateFeedbackParams list" where
  "feedbackCalls [] = []"
| "feedbackCalls (CreateFeedback p # cs) = p # feedbackCalls cs"
| "feedbackCalls (c # cs) = feedbackCalls cs"

text \<open>
  The component as mounted: nothing awaited, the initial state. The effect also runs
  once on mount, in the state \<^verbatim>\<open>INACTIVE\<close>, where it does nothing.
\<close>

definition mounted :: "World \<Rightarrow> Config" where
  "mounted w = \<lparr>agent = initialState, inflight = [], world = w\<rparr>"

section \<open>Example inputs\<close>

text \<open>
  A provider that knows one account (\<^verbatim>\<open>ann@example.com\<close>, uid \<^verbatim>\<open>u1\<close>) and rejects the
  lookup of any other email with \<^verbatim>\<open>auth/user-not-found\<close>, that accepts the id token
  \<^verbatim>\<open>token-u1\<close> and the session cookies \<^verbatim>\<open>cookie-u1\<close> and \<^verbatim>\<open>cookie-u9\<close>; a request
  whose cookie store can be read; a store and a hosted model that never fail.
\<close>

definition example_services :: Services where
  "example_services =
     \<lparr>getUserByEmail = (\<lambda>e. if e = ''ann@example.com'' then Inr (Some ''u1'')
                             else Inl (Exn (Some ''auth/user-not-found''))),
      createSessionCookie = (\<lambda>t ms. if t = ''token-u1'' then Inr ''cookie-u1''
                             else Inl (Exn (Some ''auth/invalid-id-token''))),
      verifySessionCookie = (\<lambda>c. if c = ''cookie-u1'' then Inr ''u1''
                             else if c = ''cookie-u9'' then Inr ''u9''
                             else Inl (Exn (Some ''auth/argument-error''))),
      users_get_fault = (\<lambda>i. None),
      users_set_fault = (\<lambda>i. None),
      production = True,
      cookies_fault = None,
      generateObject = (\<lambda>t. Inr \<lparr>totalScore = 70,
                             categoryScores = [(''Communication Skills'', 70)],
                             strengths = [''clear''], areasForImprovement = [''depth''],
                             finalAssessment = ''fair''\<rparr>),
      feedback_add_fault = (\<lambda>d. None),
      autoId = (\<lambda>n. ''feedback-'' @ replicate n (CHR ''i'')),
      now = ''2025-01-05T00:00:00.000Z''\<rparr>"

text \<open>
  A world with the profile of \<^verbatim>\<open>u1\<close>, no cookie, no feedback, and four interviews:
  three finalized ones of other users and one that is not finalized.
\<close>

definition example_world :: World where
  "example_world =
     \<lparr>cookieStore = Map.empty,
      users = [''u1'' \<mapsto> \<lparr>name = ''Ann'', email = ''ann@example.com''\<rparr>],
      interviews =
        [(''i1'', \<lparr>interview_userId = ''u2'', finalized = True,
                  createdAt = ''2025-01-01T09:00:00.000Z'', interview_questions = []\<rparr>),
         (''i2'', \<lparr>interview_userId = ''u3'', finalized = True,
                  createdAt = ''2025-01-03T09:00:00.000Z'', interview_questions = []\<rparr>),
         (''i3'', \<lparr>interview_userId = ''u2'', finalized = False,
                  createdAt = ''2025-01-04T09:00:00.000Z'', interview_questions = []\<rparr>),
         (''i4'', \<lparr>interview_userId = ''u2'', finalized = True,
                  createdAt = ''2025-01-02T09:00:00.000Z'', interview_questions = []\<rparr>)],
      feedback = []\<rparr>"

text \<open>The same services where \<^verbatim>\<open>await cookies()\<close> rejects.\<close>

definition example_services_no_cookies :: Services where
  "example_services_no_cookies = example_services\<lparr>cookies_fault := Some (Exn None)\<rparr>"

text \<open>A world whose request carries a session cookie of the given value.\<close>

definition with_session :: "string \<Rightarrow> World \<Rightarrow> World" where
  "with_session v w =
     w\<lparr>cookieStore := (cookieStore w)(''session'' \<mapsto>
          \<lparr>cookie_value = v, maxAge = ONE_WEEK, httpOnly = True, secure = True,
           path = ''/'', sameSite = ''lax''\<rparr>)\<rparr>"

text \<open>The component on an interview page, and on the page that generates interviews.\<close>

definition example_props :: AgentProps where
  "example_props =
     \<lparr>interviewId = Some ''i1'', userId = Some ''u1'', userName = ''Ann'',
      callType = ''interview'', questions = Some [''Why?'', ''How?''], workflowId = None\<rparr>"

definition example_generate_props :: AgentProps where
  "example_generate_props =
     \<lparr>interviewId = None, userId = Some ''u1'', userName = ''Ann'',
      callType = ''generate'', questions = None, workflowId = Some ''workflow''\<rparr>"

definition final_transcript :: "string \<Rightarrow> string \<Rightarrow> Message" where
  "final_transcript r t =
     \<lparr>message_type = ''transcript'', transcriptType = ''final'', message_role = r,
      message_transcript = t\<rparr>"

definition partial_transcript :: "string \<Rightarrow> string \<Rightarrow> Message" where
  "partial_transcript r t =
     \<lparr>message_type = ''transcript'', transcriptType = ''partial'', message_role = r,
      message_transcript = t\<rparr>"

section \<open>Properties of the authentication actions\<close>

subsection \<open>\<^verbatim>\<open>getCurrentUser\<close>\<close>

lemma getCurrentUser_throws_iff:
  "(getCurrentUser sv w = Inl e) = (cookies_fault sv = Some e)"
  by (simp add: getCurrentUser_def cookies_def split: option.splits sum.splits)

lemma getCurrentUser_no_cookie:
  "cookies_fault sv = None \<Longrightarrow> cookieStore w ''session'' = None \<Longrightarrow>
   getCurrentUser sv w = Inr None"
  by (simp add: getCurrentUser_def cookies_def)

lemma getCurrentUser_verify_fails:
  "cookies_fault sv = None \<Longrightarrow> cookieStore w ''session'' = Some c \<Longrightarrow>
   verifySessionCookie sv (cookie_value c) = Inl e \<Longrightarrow> getCurrentUser sv w = Inr None"
  by (simp add: getCurrentUser_def cookies_def getCurrentUser_try_def)

lemma getCurrentUser_no_profile:
  "cookies_fault sv = None \<Longrightarrow> cookieStore w ''session'' = Some c \<Longrightarrow>
   verifySessionCookie sv (cookie_value c) = Inr u \<Longrightarrow> users w u = None \<Longrightarrow>
   getCurrentUser sv w = Inr None"
  by (simp add: getCurrentUser_def cookies_def getCurrentUser_try_def users_doc_get_def
      split: option.splits)

lemma getCurrentUser_profile:
  "cookies_fault sv = None \<Longrightarrow> cookieStore w ''session'' = Some c \<Longrightarrow>
   cookie_value c \<noteq> [] \<Longrightarrow>
   verifySessionCookie sv (cookie_value c) = Inr u \<Longrightarrow> users_get_fault sv u = None \<Longrightarrow>
   users w u = Some d \<Longrightarrow>
   getCurrentUser sv w = Inr (Some \<lparr>name = name d, email = email d, id = u\<rparr>)"
  by (simp add: getCurrentUser_def cookies_def getCurrentUser_try_def users_doc_get_def)

text \<open>
  Claim C4. Once the request's cookie store is obtained (\<^verbatim>\<open>await cookies()\<close> does not
  reject), \<^verbatim>\<open>getCurrentUser\<close> returns \<^verbatim>\<open>null\<close>, and so does not throw, when there is
  no \<^verbatim>\<open>session\<close> cookie, when the provider rejects the cookie's value, and when the
  decoded subject has no profile document. When the cookie has a non-empty value, the
  provider accepts it and the profile is read, the result is the stored profile with
  the document id as \<^verbatim>\<open>id\<close>. The function throws exactly when \<^verbatim>\<open>cookies()\<close>
  rejects, which is outside these cases.
\<close>

theorem getCurrentUser_null_or_profile:
  "(\<forall>e. (getCurrentUser sv w = Inl e) = (cookies_fault sv = Some e)) \<and>
   (cookies_fault sv = None \<longrightarrow>
      (cookieStore w ''session'' = None \<longrightarrow> getCurrentUser sv w = Inr None) \<and>
      (\<forall>c. cookieStore w ''session'' = Some c \<longrightarrow>
         ((\<exists>e. verifySessionCookie sv (cookie_value c) = Inl e) \<longrightarrow>
             getCurrentUser sv w = Inr None) \<and>
         (\<forall>u. verifySessionCookie sv (cookie_value c) = Inr u \<longrightarrow>
            (users w u = None \<longrightarrow> getCurrentUser sv w = Inr None) \<and>
            (\<forall>d. cookie_value c \<noteq> [] \<and> users_get_fault sv u = None \<and> users w u = Some d \<longrightarrow>
               getCurrentUser sv w =
                 Inr (Some \<lparr>name = name d, email = email d, id = u\<rparr>)))))"
proof -
  have 1: "\<forall>e. (getCurrentUser sv w = Inl e) = (cookies_fault sv = Some e)"
    by (simp add: getCurrentUser_throws_iff)
  have 2: "cookies_fault sv = None \<longrightarrow>
      (cookieStore w ''session'' = None \<longrightarrow> getCurrentUser sv w = Inr None) \<and>
      (\<forall>c. cookieStore w ''session'' = Some c \<longrightarrow>
         ((\<exists>e. verifySessionCookie sv (cookie_value c) = Inl e) \<longrightarrow>
             getCurrentUser sv w = Inr None) \<and>
         (\<forall>u. verifySessionCookie sv (cookie_value c) = Inr u \<longrightarrow>
            (users w u = None \<longrightarrow> getCurrentUser sv w = Inr None) \<and>
            (\<forall>d. cookie_value c \<noteq> [] \<and> users_get_fault sv u = None \<and> users w u = Some d \<longrightarrow>
               getCurrentUser sv w =
                 Inr (Some \<lparr>name = name d, email = email d, id = u\<rparr>))))"
    using getCurrentUser_no_cookie [of sv w] getCurrentUser_verify_fails [of sv w]
      getCurrentUser_no_profile [of sv w] getCurrentUser_profile [of sv w]
    by blast
  from 1 2 show ?thesis by (rule conjI)
qed

text \<open>
  The four cases of C4 on the example provider, whose cookie store can be read: no
  cookie; a cookie the provider rejects; the cookie of a subject without a profile;
  the cookie of \<^verbatim>\<open>u1\<close>.
\<close>

theorem getCurrentUser_null_or_profile_witness:
  "cookies_fault example_services = None \<and>
   getCurrentUser example_services example_world = Inr None \<and>
   getCurrentUser example_services (with_session ''forged'' example_world) = Inr None \<and>
   getCurrentUser example_services (with_session ''cookie-u9'' example_world) = Inr None \<and>
   getCurrentUser example_services (with_session ''cookie-u1'' example_world) =
     Inr (Some \<lparr>name = ''Ann'', email = ''ann@example.com'', id = ''u1''\<rparr>)"
  using getCurrentUser_null_or_profile [of example_services example_world]
    getCurrentUser_null_or_profile [of example_services "with_session ''forged'' example_world"]
    getCurrentUser_null_or_profile [of example_services "with_session ''cookie-u9'' example_world"]
    getCurrentUser_null_or_profile [of example_services "with_session ''cookie-u1'' example_world"]
  by (simp add: example_services_def example_world_def with_session_def)

subsection \<open>\<^verbatim>\<open>isAuthenticated\<close>\<close>

lemma isAuthenticated_throws_iff:
  "(isAuthenticated sv w = Inl e) = (getCurrentUser sv w = Inl e)"
  by (cases "getCurrentUser sv w") (simp_all add: isAuthenticated_def)

lemma isAuthenticated_True_iff:
  "(isAuthenticated sv w = Inr True) = (\<exists>u. getCurrentUser sv w = Inr (Some u))"
  by (cases "getCurrentUser sv w") (auto simp: isAuthenticated_def)

lemma isAuthenticated_False_iff:
  "(isAuthenticated sv w = Inr False) = (getCurrentUser sv w = Inr None)"
  by (cases "getCurrentUser sv w") (auto simp: isAuthenticated_def)

lemma isAuthenticated_returns:
  "cookies_fault sv = None \<Longrightarrow> \<exists>b. isAuthenticated sv w = Inr b"
  by (cases "getCurrentUser sv w")
     (simp_all add: isAuthenticated_def getCurrentUser_throws_iff)

text \<open>
  Claim C10, as stated, at an input where it fails: \<^verbatim>\<open>await cookies()\<close> rejects.
  \<^verbatim>\<open>getCurrentUser\<close> awaits it before its \<^verbatim>\<open>try\<close> block and \<^verbatim>\<open>isAuthenticated\<close> has no
  \<^verbatim>\<open>try\<close>, so \<^verbatim>\<open>isAuthenticated\<close> throws that rejection.
\<close>

theorem isAuthenticated_throws_counterexample:
  "cookies_fault example_services_no_cookies = Some (Exn None) \<and>
   getCurrentUser example_services_no_cookies example_world = Inl (Exn None) \<and>
   isAuthenticated example_services_no_cookies example_world = Inl (Exn None)"
  by (simp add: isAuthenticated_def getCurrentUser_def cookies_def
      example_services_no_cookies_def)

text \<open>
  Claim C10, amended. \<^verbatim>\<open>isAuthenticated\<close> throws exactly when \<^verbatim>\<open>getCurrentUser\<close>
  does, which is exactly when \<^verbatim>\<open>await cookies()\<close> rejects, with the same exception;
  it returns \<^verbatim>\<open>true\<close> exactly when \<^verbatim>\<open>getCurrentUser\<close> returns a user and \<^verbatim>\<open>false\<close>
  exactly when that returns \<^verbatim>\<open>null\<close>. Once the cookie store is obtained it returns a
  boolean, and that is \<^verbatim>\<open>false\<close> when the session cookie is absent, when the provider
  rejects it, and when its subject has no profile document.
\<close>

theorem isAuthenticated_iff_current_user:
  "(\<forall>e. (isAuthenticated sv w = Inl e) = (getCurrentUser sv w = Inl e)) \<and>
   (\<forall>e. (isAuthenticated sv w = Inl e) = (cookies_fault sv = Some e)) \<and>
   (isAuthenticated sv w = Inr True) = (\<exists>u. getCurrentUser sv w = Inr (Some u)) \<and>
   (isAuthenticated sv w = Inr False) = (getCurrentUser sv w = Inr None) \<and>
   (cookies_fault sv = None \<longrightarrow>
      (\<exists>b. isAuthenticated sv w = Inr b) \<and>
      (cookieStore w ''session'' = None \<longrightarrow> isAuthenticated sv w = Inr False) \<and>
      (\<forall>c. cookieStore w ''session'' = Some c \<longrightarrow>
         ((\<exists>e. verifySessionCookie sv (cookie_value c) = Inl e) \<longrightarrow>
             isAuthenticated sv w = Inr False) \<and>
         (\<forall>u. verifySessionCookie sv (cookie_value c) = Inr u \<longrightarrow> users w u = None \<longrightarrow>
             isAuthenticated sv w = Inr False)))"
proof -
  have 1: "\<forall>e. (isAuthenticated sv w = Inl e) = (getCurrentUser sv w = Inl e)"
    by (simp add: isAuthenticated_throws_iff)
  have 2: "\<forall>e. (isAuthenticated sv w = Inl e) = (cookies_fault sv = Some e)"
    by (simp add: isAuthenticated_throws_iff getCurrentUser_throws_iff)
  note 3 = isAuthenticated_True_iff [of sv w]
  note 4 = isAuthenticated_False_iff [of sv w]
  have 5: "cookies_fault sv = None \<longrightarrow>
      (\<exists>b. isAuthenticated sv w = Inr b) \<and>
      (cookieStore w ''session'' = None \<longrightarrow> isAuthenticated sv w = Inr False) \<and>
      (\<forall>c. cookieStore w ''session'' = Some c \<longrightarrow>
         ((\<exists>e. verifySessionCookie sv (cookie_value c) = Inl e) \<longrightarrow>
             isAuthenticated sv w = Inr False) \<and>
         (\<forall>u. verifySessionCookie sv (cookie_value c) = Inr u \<longrightarrow> users w u = None \<longrightarrow>
             isAuthenticated sv w = Inr False))"
    unfolding 4
    using isAuthenticated_returns [of sv w] getCurrentUser_no_cookie [of sv w]
      getCurrentUser_verify_fails [of sv w] getCurrentUser_no_profile [of sv w]
    by blast
  from 1 2 3 4 5 show ?thesis by (intro conjI)
qed

text \<open>
  The amended C10 on the example provider, whose cookie store can be read: no cookie,
  a rejected cookie and a subject without a profile give \<^verbatim>\<open>false\<close>; the result for
  the cookie of \<^verbatim>\<open>u1\<close> is \<^verbatim>\<open>true\<close>, as \<^verbatim>\<open>getCurrentUser\<close> returns that user.
\<close>

theorem isAuthenticated_iff_current_user_witness:
  "cookies_fault example_services = None \<and>
   isAuthenticated example_services example_world = Inr False \<and>
   isAuthenticated example_services (with_session ''forged'' example_world) = Inr False \<and>
   isAuthenticated example_services (with_session ''cookie-u9'' example_world) = Inr False \<and>
   isAuthenticated example_services (with_session ''cookie-u1'' example_world) = Inr True"
proof -
  have c: "cookies_fault example_services = None"
    by (simp add: example_services_def)
  have u1: "getCurrentUser example_services (with_session ''cookie-u1'' example_world) =
      Inr (Some \<lparr>name = ''Ann'', email = ''ann@example.com'', id = ''u1''\<rparr>)"
    by (simp add: getCurrentUser_def cookies_def getCurrentUser_try_def users_doc_get_def
        example_services_def example_world_def with_session_def)
  have "isAuthenticated example_services example_world = Inr False"
    "isAuthenticated example_services (with_session ''forged'' example_world) = Inr False"
    "isAuthenticated example_services (with_session ''cookie-u9'' example_world) = Inr False"
    using isAuthenticated_iff_current_user [of example_services example_world]
      isAuthenticated_iff_current_user [of example_services
        "with_session ''forged'' example_world"]
      isAuthenticated_iff_current_user [of example_services
        "with_session ''cookie-u9'' example_world"]
    by (simp_all add: example_services_def example_world_def with_session_def)
  moreover have
    "isAuthenticated example_services (with_session ''cookie-u1'' example_world) = Inr True"
    using isAuthenticated_iff_current_user [of example_services
        "with_session ''cookie-u1'' example_world"] u1
    by simp
  ultimately show ?thesis using c by simp
qed

subsection \<open>\<^verbatim>\<open>signUp\<close>\<close>

text \<open>
  Claim C5, as stated, at an input where it fails: the store holds the profile of
  \<^verbatim>\<open>u1\<close> with the email \<^verbatim>\<open>ann@example.com\<close>, and \<^verbatim>\<open>signUp\<close> is called with the
  same email under the new uid \<^verbatim>\<open>u2\<close>. The result has \<^verbatim>\<open>success: true\<close> and a second
  profile with that email is written: \<^verbatim>\<open>signUp\<close> looks up the uid only.
\<close>

theorem signUp_duplicate_email_counterexample:
  "users example_world ''u1'' = Some \<lparr>name = ''Ann'', email = ''ann@example.com''\<rparr> \<and>
   users example_world ''u2'' = None \<and>
   fst (signUp example_services
          \<lparr>name = ''Bob'', email = ''ann@example.com'', uid = ''u2'', password = ''pw''\<rparr>
          example_world) =
     \<lparr>success = True, message = ''Account created successfully. Please sign in.''\<rparr> \<and>
   users (snd (signUp example_services
          \<lparr>name = ''Bob'', email = ''ann@example.com'', uid = ''u2'', password = ''pw''\<rparr>
          example_world)) ''u2'' = Some \<lparr>name = ''Bob'', email = ''ann@example.com''\<rparr>"
  by (simp add: signUp_def users_doc_get_def users_doc_set_def example_services_def
      example_world_def)

text \<open>
  Claim C5, amended. For every \<^verbatim>\<open>signUp\<close> call whose uid already has a profile
  document, the result has \<^verbatim>\<open>success: false\<close> and the world is unchanged (no write);
  when the lookup itself does not reject, the message is the distinguishable
  \<^verbatim>\<open>User already exists. Please sign in instead.\<close> The email is not looked up in the
  store.
\<close>

theorem signUp_existing_uid_rejected:
  "users w (uid params) \<noteq> None \<Longrightarrow>
     \<not> success (fst (signUp sv params w)) \<and> snd (signUp sv params w) = w \<and>
     (users_get_fault sv (uid params) = None \<longrightarrow>
        message (fst (signUp sv params w)) = ''User already exists. Please sign in instead.'' \<and>
        message (fst (signUp sv params w)) \<noteq> ''Failed to create an account'')"
  by (auto simp: signUp_def users_doc_get_def signUp_catch_def split: option.splits)

text \<open>The amended C5 on the example store: a second sign-up under the uid \<^verbatim>\<open>u1\<close>.\<close>

theorem signUp_existing_uid_rejected_witness:
  "users example_world ''u1'' \<noteq> None \<and>
   fst (signUp example_services
          \<lparr>name = ''Eve'', email = ''eve@example.com'', uid = ''u1'', password = ''pw''\<rparr>
          example_world) =
     \<lparr>success = False, message = ''User already exists. Please sign in instead.''\<rparr> \<and>
   snd (signUp example_services
          \<lparr>name = ''Eve'', email = ''eve@example.com'', uid = ''u1'', password = ''pw''\<rparr>
          example_world) = example_world"
proof -
  have h: "users example_world
      (uid \<lparr>name = ''Eve'', email = ''eve@example.com'', uid = ''u1'', password = ''pw''\<rparr>)
      \<noteq> None"
    by (simp add: example_world_def)
  have f: "users_get_fault example_services
      (uid \<lparr>name = ''Eve'', email = ''eve@example.com'', uid = ''u1'', password = ''pw''\<rparr>)
      = None"
    by (simp add: example_services_def)
  from signUp_existing_uid_rejected [OF h, of example_services] f
  have "\<not> success (fst (signUp example_services
          \<lparr>name = ''Eve'', email = ''eve@example.com'', uid = ''u1'', password = ''pw''\<rparr>
          example_world))"
    and "message (fst (signUp example_services
          \<lparr>name = ''Eve'', email = ''eve@example.com'', uid = ''u1'', password = ''pw''\<rparr>
          example_world)) = ''User already exists. Please sign in instead.''"
    and "snd (signUp example_services
          \<lparr>name = ''Eve'', email = ''eve@example.com'', uid = ''u1'', password = ''pw''\<rparr>
          example_world) = example_world"
    by simp_all
  moreover have "users example_world ''u1'' \<noteq> None"
    using h by simp
  ultimately show ?thesis
    by (cases "fst (signUp example_services
          \<lparr>name = ''Eve'', email = ''eve@example.com'', uid = ''u1'', password = ''pw''\<rparr>
          example_world)") simp
qed

subsection \<open>\<^verbatim>\<open>signIn\<close>\<close>

lemma signIn_lookup_rejected:
  "getUserByEmail sv (signin_email params) = Inl e \<Longrightarrow>
   signIn sv params w =
     (Some \<lparr>success = False, message = ''Failed to log into an account.''\<rparr>, w)"
  by (simp add: signIn_def)

lemma signIn_lookup_falsy:
  "getUserByEmail sv (signin_email params) = Inr None \<Longrightarrow>
   signIn sv params w =
     (Some \<lparr>success = False, message = ''User does not exist. Create an account instead.''\<rparr>,
      w)"
  by (simp add: signIn_def)

lemma signIn_session_established:
  "getUserByEmail sv (signin_email params) = Inr (Some u) \<Longrightarrow>
   setSessionCookie sv (idToken params) w = Inr w' \<Longrightarrow>
   signIn sv params w = (None, w')"
  by (simp add: signIn_def)

text \<open>
  Whatever the provider does, \<^verbatim>\<open>signIn\<close> returns \<^verbatim>\<open>undefined\<close> or one of its two
  failure objects; it never returns an object with \<^verbatim>\<open>success: true\<close>.
\<close>

lemma signIn_result_shape:
  "fst (signIn sv params w) = None \<or>
   fst (signIn sv params w) =
     Some \<lparr>success = False, message = ''User does not exist. Create an account instead.''\<rparr> \<or>
   fst (signIn sv params w) =
     Some \<lparr>success = False, message = ''Failed to log into an account.''\<rparr>"
  by (simp add: signIn_def split: sum.splits option.splits)
text \<open>
  Claim C6 at the input where the code departs from it: the account exists and the
  provider issues the session cookie. The cookie is stored, and \<^verbatim>\<open>signIn\<close> runs off
  its end: it returns \<^verbatim>\<open>undefined\<close>, not an object with \<^verbatim>\<open>success: true\<close>.
\<close>

theorem signIn_success_returns_undefined:
  "fst (signIn example_services
          \<lparr>signin_email = ''ann@example.com'', idToken = ''token-u1''\<rparr> example_world) = None \<and>
   map_option cookie_value
     (cookieStore (snd (signIn example_services
        \<lparr>signin_email = ''ann@example.com'', idToken = ''token-u1''\<rparr> example_world))
        ''session'') = Some ''cookie-u1''"
  by (simp add: signIn_def setSessionCookie_def cookies_def example_services_def
      example_world_def)

text \<open>
  Claim C7 at the input where the code departs from it: the provider knows no account
  for the email and rejects the lookup with \<^verbatim>\<open>auth/user-not-found\<close>. The rejection is
  caught, and the result carries the generic message, not
  \<^verbatim>\<open>User does not exist. Create an account instead.\<close>
\<close>

theorem signIn_unknown_email_generic_failure:
  "getUserByEmail example_services ''nobody@example.com'' =
     Inl (Exn (Some ''auth/user-not-found'')) \<and>
   fst (signIn example_services
      \<lparr>signin_email = ''nobody@example.com'', idToken = ''token-u1''\<rparr> example_world) =
     Some \<lparr>success = False, message = ''Failed to log into an account.''\<rparr>"
  by (simp add: signIn_def example_services_def)


section \<open>Properties of the interview and feedback actions\<close>

subsection \<open>The descending order\<close>

lemma set_insert_desc: "set (insert_desc k x ys) = insert x (set ys)"
  by (induction ys) auto

lemma set_sort_desc: "set (sort_desc k xs) = set xs"
  by (induction xs) (simp_all add: sort_desc_def set_insert_desc)

lemma length_insert_desc: "length (insert_desc k x ys) = Suc (length ys)"
  by (induction ys) auto

lemma length_sort_desc: "length (sort_desc k xs) = length xs"
  by (induction xs) (simp_all add: sort_desc_def length_insert_desc)

lemma sorted_insert_desc:
  "sorted_wrt (\<lambda>a b. k b \<le> k a) ys \<Longrightarrow> sorted_wrt (\<lambda>a b. k b \<le> k a) (insert_desc k x ys)"
proof (induction ys)
  case Nil
  show ?case by simp
next
  case (Cons y ys)
  from Cons.prems have tl: "sorted_wrt (\<lambda>a b. k b \<le> k a) ys"
    and hd: "\<forall>z \<in> set ys. k z \<le> k y" by simp_all
  show ?case
  proof (cases "k y \<le> k x")
    case True
    with hd have "\<forall>z \<in> set (y # ys). k z \<le> k x" by (auto intro: order_trans)
    with True Cons.prems show ?thesis by simp
  next
    case False
    then have "k x \<le> k y" by simp
    with hd have "\<forall>z \<in> set (insert_desc k x ys). k z \<le> k y"
      by (simp add: set_insert_desc)
    with False Cons.IH [OF tl] show ?thesis by simp
  qed
qed

lemma sorted_sort_desc: "sorted_wrt (\<lambda>a b. k b \<le> k a) (sort_desc k xs)"
  by (induction xs) (simp_all add: sort_desc_def sorted_insert_desc)

lemma sorted_wrt_take_drop:
  "sorted_wrt P xs \<Longrightarrow> a \<in> set (take n xs) \<Longrightarrow> b \<in> set (drop n xs) \<Longrightarrow> P a b"
  by (metis append_take_drop_id sorted_wrt_append)

lemma in_take_or_drop: "x \<in> set xs \<Longrightarrow> x \<in> set (take n xs) \<or> x \<in> set (drop n xs)"
  by (metis Un_iff append_take_drop_id set_append)

subsection \<open>\<^verbatim>\<open>getLatestInterviews\<close>\<close>

lemma getLatestInterviews_eq:
  "getLatestInterviews params w =
     map toInterview
       (take (case limit params of None \<Rightarrow> 20 | Some n \<Rightarrow> n)
          (sort_desc (\<lambda>doc. createdAt (snd doc))
             (filter (\<lambda>doc. finalized (snd doc) \<and>
                             interview_userId (snd doc) \<noteq> caller_userId params)
                (interviews w))))"
  by (simp add: getLatestInterviews_def get_q_def limit_q_def where_q_def orderBy_desc_def
      collection_def Let_def)

text \<open>
  Claim C8. For every store and caller, every interview \<^verbatim>\<open>getLatestInterviews\<close>
  returns is a document of the store that is finalized and whose \<^verbatim>\<open>userId\<close> differs
  from the caller's; the result is ordered newest first by \<^verbatim>\<open>createdAt\<close>; its length
  is the smaller of the limit (20 when none is given) and the number of such
  documents; and every such document that is left out is no newer than any that is
  returned.
\<close>

theorem getLatestInterviews_newest_finalized_of_others:
  fixes params :: GetLatestInterviewsParams and w :: World
  defines "r \<equiv> getLatestInterviews params w"
  defines "n \<equiv> (case limit params of None \<Rightarrow> 20 | Some n \<Rightarrow> n)"
  shows
  "(\<forall>iv \<in> set r. finalized iv \<and> interview_userId iv \<noteq> caller_userId params \<and>
       iv \<in> toInterview ` set (interviews w)) \<and>
   sorted_wrt (\<lambda>a b. createdAt b \<le> createdAt a) r \<and>
   length r = min n (length (filter (\<lambda>doc. finalized (snd doc) \<and>
        interview_userId (snd doc) \<noteq> caller_userId params) (interviews w))) \<and>
   (\<forall>doc \<in> set (interviews w).
      finalized (snd doc) \<and> interview_userId (snd doc) \<noteq> caller_userId params \<and>
      toInterview doc \<notin> set r \<longrightarrow> (\<forall>iv \<in> set r. createdAt (snd doc) \<le> createdAt iv))"
proof -
  let ?el = "\<lambda>doc. finalized (snd doc) \<and> interview_userId (snd doc) \<noteq> caller_userId params"
  let ?xs = "sort_desc (\<lambda>doc. createdAt (snd doc)) (filter ?el (interviews w))"
  have r: "r = map toInterview (take n ?xs)"
    unfolding r_def n_def by (rule getLatestInterviews_eq)
  have sub: "set (take n ?xs) \<subseteq> set (filter ?el (interviews w))"
    using set_take_subset [of n ?xs] by (simp add: set_sort_desc)
  have 1: "\<forall>iv \<in> set r. finalized iv \<and> interview_userId iv \<noteq> caller_userId params \<and>
       iv \<in> toInterview ` set (interviews w)"
    using sub by (auto simp: r toInterview_def)
  have srt: "sorted_wrt (\<lambda>a b. createdAt (snd b) \<le> createdAt (snd a)) ?xs"
    by (rule sorted_sort_desc)
  have 2: "sorted_wrt (\<lambda>a b. createdAt b \<le> createdAt a) r"
    using sorted_wrt_take [OF srt, of n] by (simp add: r sorted_wrt_map toInterview_def)
  have 3: "length r = min n (length (filter ?el (interviews w)))"
    by (simp add: r length_sort_desc min.commute)
  have 4: "\<forall>doc \<in> set (interviews w). ?el doc \<and> toInterview doc \<notin> set r \<longrightarrow>
      (\<forall>iv \<in> set r. createdAt (snd doc) \<le> createdAt iv)"
  proof (intro ballI impI)
    fix doc iv
    assume d: "doc \<in> set (interviews w)" and e: "?el doc \<and> toInterview doc \<notin> set r"
      and iv: "iv \<in> set r"
    from d e have inx: "doc \<in> set ?xs" by (simp add: set_sort_desc)
    from e have nt: "doc \<notin> set (take n ?xs)" by (auto simp: r)
    have dr: "doc \<in> set (drop n ?xs)"
    proof (rule disjE [OF in_take_or_drop [OF inx, of n]])
      assume "doc \<in> set (take n ?xs)"
      with nt show ?thesis by (rule notE)
    next
      assume "doc \<in> set (drop n ?xs)"
      then show ?thesis .
    qed
    from iv obtain a where a: "a \<in> set (take n ?xs)" and iva: "iv = toInterview a"
      by (auto simp: r)
    from sorted_wrt_take_drop [OF srt a dr] show "createdAt (snd doc) \<le> createdAt iv"
      by (simp add: iva toInterview_def)
  qed
  from 1 2 3 4 show ?thesis by blast
qed

text \<open>
  The scenario of C8: the caller \<^verbatim>\<open>u1\<close> asks for 2 interviews from the example store,
  which holds three finalized interviews of other users (\<^verbatim>\<open>i1\<close>, \<^verbatim>\<open>i2\<close>, \<^verbatim>\<open>i4\<close>, of
  1, 3 and 2 January) and the unfinalized \<^verbatim>\<open>i3\<close> (4 January). The result is \<^verbatim>\<open>i2\<close>,
  then \<^verbatim>\<open>i4\<close>: two interviews, both finalized, newest first, and the one left out
  (\<^verbatim>\<open>i1\<close>) is older than both.
\<close>

theorem getLatestInterviews_scenario:
  "map interview_id
     (getLatestInterviews \<lparr>caller_userId = ''u1'', limit = Some 2\<rparr> example_world) =
     [''i2'', ''i4''] \<and>
   length (getLatestInterviews \<lparr>caller_userId = ''u1'', limit = Some 2\<rparr> example_world) = 2 \<and>
   list_all finalized
     (getLatestInterviews \<lparr>caller_userId = ''u1'', limit = Some 2\<rparr> example_world) \<and>
   sorted_wrt (\<lambda>a b. createdAt b \<le> createdAt a)
     (getLatestInterviews \<lparr>caller_userId = ''u1'', limit = Some 2\<rparr> example_world)"
proof -
  have ids: "map interview_id
     (getLatestInterviews \<lparr>caller_userId = ''u1'', limit = Some 2\<rparr> example_world) =
     [''i2'', ''i4'']"
    by code_simp
  have n: "length (filter (\<lambda>doc. finalized (snd doc) \<and>
        interview_userId (snd doc) \<noteq> caller_userId \<lparr>caller_userId = ''u1'', limit = Some 2\<rparr>)
        (interviews example_world)) = 3"
    by (simp add: example_world_def)
  note spec = getLatestInterviews_newest_finalized_of_others
         [of "\<lparr>caller_userId = ''u1'', limit = Some 2\<rparr>" example_world]
  from spec have fin: "\<forall>iv \<in> set (getLatestInterviews
        \<lparr>caller_userId = ''u1'', limit = Some 2\<rparr> example_world). finalized iv"
    by blast
  from spec have srt: "sorted_wrt (\<lambda>a b. createdAt b \<le> createdAt a)
     (getLatestInterviews \<lparr>caller_userId = ''u1'', limit = Some 2\<rparr> example_world)"
    by blast
  from spec have "length (getLatestInterviews
        \<lparr>caller_userId = ''u1'', limit = Some 2\<rparr> example_world) =
      min (case limit \<lparr>caller_userId = ''u1'', limit = Some 2\<rparr> of None \<Rightarrow> 20 | Some n \<Rightarrow> n)
        (length (filter (\<lambda>doc. finalized (snd doc) \<and>
           interview_userId (snd doc) \<noteq>
             caller_userId \<lparr>caller_userId = ''u1'', limit = Some 2\<rparr>)
           (interviews example_world)))"
    by blast
  then have len: "length (getLatestInterviews
        \<lparr>caller_userId = ''u1'', limit = Some 2\<rparr> example_world) = 2"
    unfolding n by simp
  from fin have all: "list_all finalized
     (getLatestInterviews \<lparr>caller_userId = ''u1'', limit = Some 2\<rparr> example_world)"
    by (simp only: list_all_iff)
  from ids len all srt show ?thesis by blast
qed

subsection \<open>\<^verbatim>\<open>createFeedback\<close>\<close>

text \<open>
  \<^verbatim>\<open>createFeedback\<close> returns \<^verbatim>\<open>{success: false}\<close> without a \<^verbatim>\<open>feedbackId\<close>, or
  \<^verbatim>\<open>{success: true, feedbackId}\<close>: the id is present exactly when \<^verbatim>\<open>success\<close> is true.
\<close>

lemma createFeedback_result_shape:
  "fst (createFeedback sv p w) = \<lparr>success = False, feedbackId = None\<rparr> \<or>
   (\<exists>i. fst (createFeedback sv p w) = \<lparr>success = True, feedbackId = Some i\<rparr>)"
  by (simp add: createFeedback_def feedback_add_def Let_def
      split: sum.splits option.splits prod.splits)

lemma createFeedback_feedbackId_iff_success:
  "(feedbackId (fst (createFeedback sv p w)) \<noteq> None) = success (fst (createFeedback sv p w))"
  by (simp add: createFeedback_def feedback_add_def Let_def
      split: sum.splits option.splits prod.splits)


section \<open>Properties of the voice agent component\<close>

subsection \<open>The transcript\<close>

lemma messages_handle:
  "messages (fst (handle props e s)) =
     messages s @ [\<lparr>role = message_role m, content = message_transcript m\<rparr>.
                   OnMessage m \<leftarrow> [e],
                   message_type m = ''transcript'' \<and> transcriptType m = ''final'']"
  by (cases e)
     (simp_all add: onCallStart_def onCallEnd_def onMessage_def onSpeechStart_def
        onSpeechEnd_def handleCall_def handleDisconnect_def)

lemma agent_resume: "agent (fst (resume props e c)) = agent c"
  by (simp add: resume_def split: Event.splits list.splits)

lemma agent_feedbackEffect: "agent (fst (feedbackEffect sv props c)) = agent c"
  by (simp add: feedbackEffect_def handleGenerateFeedback_def Let_def case_prod_beta)

lemma state_step: "agent (fst (step sv props e c)) = fst (handle props e (agent c))"
  by (simp add: step_def Let_def case_prod_beta agent_resume agent_feedbackEffect)

lemma state_run_Cons:
  "agent (fst (run sv props (e # es) c)) = agent (fst (run sv props es (fst (step sv props e c))))"
  by (simp add: Let_def case_prod_beta)

text \<open>
  Claim C2. For every sequence of events, from every configuration, the transcript
  after the run is the transcript before it followed by one \<^verbatim>\<open>{role, content}\<close>
  entry for each \<^verbatim>\<open>message\<close> event whose type is \<^verbatim>\<open>transcript\<close> and whose
  \<^verbatim>\<open>transcriptType\<close> is \<^verbatim>\<open>final\<close>, in the order of the events; no other event adds,
  removes or changes an entry.
\<close>

theorem transcript_is_final_transcripts_in_order:
  "messages (agent (fst (run sv props evs c))) =
     messages (agent c) @ [\<lparr>role = message_role m, content = message_transcript m\<rparr>.
                         OnMessage m \<leftarrow> evs,
                         message_type m = ''transcript'' \<and> transcriptType m = ''final'']"
proof (induction evs arbitrary: c)
  case Nil
  show ?case by simp
next
  case (Cons e es)
  have "messages (agent (fst (run sv props (e # es) c))) =
        messages (agent (fst (step sv props e c))) @
          [\<lparr>role = message_role m, content = message_transcript m\<rparr>.
             OnMessage m \<leftarrow> es, message_type m = ''transcript'' \<and> transcriptType m = ''final'']"
    by (simp only: state_run_Cons Cons.IH)
  also have "messages (agent (fst (step sv props e c))) =
     messages (agent c) @ [\<lparr>role = message_role m, content = message_transcript m\<rparr>.
                   OnMessage m \<leftarrow> [e],
                   message_type m = ''transcript'' \<and> transcriptType m = ''final'']"
    by (simp only: state_step messages_handle)
  finally show ?case by simp
qed

subsection \<open>The feedback effect\<close>

lemma feedbackCalls_append: "feedbackCalls (xs @ ys) = feedbackCalls xs @ feedbackCalls ys"
  by (induction xs rule: feedbackCalls.induct) simp_all

lemma feedbackCalls_handle: "feedbackCalls (snd (handle props e s)) = []"
  by (cases e) (simp_all add: handleCall_def handleDisconnect_def)

lemma feedbackCalls_resume: "feedbackCalls (snd (resume props e c)) = []"
  by (simp add: resume_def afterCreateFeedback_def split: Event.splits list.splits)

lemma world_resume: "world (fst (resume props e c)) = world c"
  by (simp add: resume_def split: Event.splits list.splits)

lemma step_effect_runs:
  assumes "callStatus (agent c) \<noteq> FINISHED"
    "callStatus (agent (fst (step sv props e c))) = FINISHED"
  shows "step sv props e c =
     (fst (feedbackEffect sv props
             ((fst (resume props e c))\<lparr>agent := fst (handle props e (agent c))\<rparr>)),
      snd (resume props e c) @ snd (handle props e (agent c)) @
      snd (feedbackEffect sv props
             ((fst (resume props e c))\<lparr>agent := fst (handle props e (agent c))\<rparr>)))"
proof -
  from assms(2) have "callStatus (fst (handle props e (agent c))) = FINISHED"
    by (simp only: state_step)
  with assms(1) have "depsChanged (agent c) (fst (handle props e (agent c)))"
    by (auto simp: depsChanged_def)
  then show ?thesis by (simp add: step_def Let_def case_prod_beta agent_resume)
qed

lemma step_generate:
  assumes "callType props = ''generate''"
  shows "feedbackCalls (snd (step sv props e c)) = [] \<and> world (fst (step sv props e c)) = world c"
  using assms
  by (simp add: step_def Let_def case_prod_beta feedbackEffect_def feedbackCalls_append
      feedbackCalls_resume feedbackCalls_handle world_resume)

lemma run_generate:
  assumes "callType props = ''generate''"
  shows "feedbackCalls (snd (run sv props evs c)) = [] \<and> world (fst (run sv props evs c)) = world c"
proof (induction evs arbitrary: c)
  case Nil
  show ?case by simp
next
  case (Cons e es)
  obtain c' cs where st: "step sv props e c = (c', cs)"
    by (cases "step sv props e c")
  obtain c'' cs' where rn: "run sv props es c' = (c'', cs')"
    by (cases "run sv props es c'")
  from step_generate [OF assms, of sv e c] st
  have 1: "feedbackCalls cs = []" "world c' = world c" by simp_all
  from Cons.IH [of c'] rn
  have 2: "feedbackCalls cs' = []" "world c'' = world c'" by simp_all
  show ?case using 1 2 by (simp add: st rn feedbackCalls_append)
qed

lemma enter_FINISHED_generate:
  assumes "callType props = ''generate''" "callStatus (agent c) \<noteq> FINISHED"
    "callStatus (agent (fst (step sv props e c))) = FINISHED"
  shows "snd (step sv props e c) =
     snd (resume props e c) @ snd (handle props e (agent c)) @ [RouterPush ''/'']"
proof -
  from assms(3) have "callStatus (fst (handle props e (agent c))) = FINISHED"
    by (simp only: state_step)
  then show ?thesis
    by (simp add: step_effect_runs [OF assms(2,3)] feedbackEffect_def assms(1))
qed

text \<open>
  In a call that is not of type \<^verbatim>\<open>generate\<close>, the step that enters \<^verbatim>\<open>FINISHED\<close> calls
  \<^verbatim>\<open>createFeedback\<close> once, with the component's \<^verbatim>\<open>interviewId\<close> and \<^verbatim>\<open>userId\<close> and
  the transcript accumulated so far (empty or not).
\<close>

lemma enter_FINISHED_calls_createFeedback_once:
  assumes "callType props \<noteq> ''generate''" "callStatus (agent c) \<noteq> FINISHED"
    "callStatus (agent (fst (step sv props e c))) = FINISHED"
  shows "feedbackCalls (snd (step sv props e c)) =
     [\<lparr>interviewId = interviewId props, userId = userId props,
       transcript = messages (agent (fst (step sv props e c)))\<rparr>]"
proof -
  from assms(3) have "callStatus (fst (handle props e (agent c))) = FINISHED"
    by (simp only: state_step)
  then show ?thesis
    using feedbackCalls_handle [of props e "agent c"]
    by (simp add: step_effect_runs [OF assms(2,3)] feedbackEffect_def assms(1)
        handleGenerateFeedback_def Let_def case_prod_beta feedbackCalls_append
        feedbackCalls_resume)
qed

text \<open>The same step on an interview call with one transcript entry, ended by the channel.\<close>

theorem enter_FINISHED_calls_createFeedback_once_witness:
  "callType example_props \<noteq> ''generate'' \<and>
   feedbackCalls (snd (step example_services example_props CallEnd
     ((mounted example_world)\<lparr>agent :=
        \<lparr>isSpeaking = False, callStatus = ACTIVE,
         messages = [\<lparr>role = ''user'', content = ''Hello''\<rparr>]\<rparr>\<rparr>))) =
     [\<lparr>interviewId = Some ''i1'', userId = Some ''u1'',
       transcript = [\<lparr>role = ''user'', content = ''Hello''\<rparr>]\<rparr>]"
proof -
  let ?c = "(mounted example_world)\<lparr>agent :=
        \<lparr>isSpeaking = False, callStatus = ACTIVE,
         messages = [\<lparr>role = ''user'', content = ''Hello''\<rparr>]\<rparr>\<rparr>"
  have g: "callType example_props \<noteq> ''generate''"
    by (simp add: example_props_def)
  have a: "callStatus (agent ?c) \<noteq> FINISHED"
    by simp
  have b: "callStatus (agent (fst (step example_services example_props CallEnd ?c))) = FINISHED"
    by (simp add: state_step onCallEnd_def)
  have m: "messages (agent (fst (step example_services example_props CallEnd ?c))) =
      [\<lparr>role = ''user'', content = ''Hello''\<rparr>]"
    by (simp add: state_step onCallEnd_def)
  from enter_FINISHED_calls_createFeedback_once [OF g a b] m g show ?thesis
    by (simp add: example_props_def)
qed

text \<open>
  While the state is \<^verbatim>\<open>FINISHED\<close>, every further final transcript changes
  \<^verbatim>\<open>messages\<close>, a dependency of the effect, and the effect calls \<^verbatim>\<open>createFeedback\<close>
  again.
\<close>

lemma final_transcript_in_FINISHED_calls_createFeedback_again:
  assumes "callType props \<noteq> ''generate''" "callStatus (agent c) = FINISHED"
    "message_type m = ''transcript''" "transcriptType m = ''final''"
  shows "feedbackCalls (snd (step sv props (OnMessage m) c)) =
     [\<lparr>interviewId = interviewId props, userId = userId props,
       transcript = messages (agent c) @
         [\<lparr>role = message_role m, content = message_transcript m\<rparr>]\<rparr>]"
  using assms
  by (simp add: step_def resume_def Let_def case_prod_beta onMessage_def depsChanged_def
      feedbackEffect_def handleGenerateFeedback_def)

text \<open>
  Claim C1 at an input where the code departs from it. An interview call: the user
  starts the call, the channel connects, one final transcript arrives, the user ends
  the call (the state becomes \<^verbatim>\<open>FINISHED\<close> with a non-empty transcript, before the
  channel is stopped), and one more final transcript arrives from the channel that is
  shutting down, while the first \<^verbatim>\<open>createFeedback\<close> call is still awaited.
  \<^verbatim>\<open>createFeedback\<close> is called twice, first with the transcript of one entry and then
  with the transcript of two, and the store holds two feedback documents.
\<close>

theorem late_final_transcript_calls_createFeedback_twice:
  "feedbackCalls (snd (run example_services example_props
       [Call, CallStart, OnMessage (final_transcript ''user'' ''Hello''), Disconnect,
        OnMessage (final_transcript ''assistant'' ''Goodbye'')]
       (mounted example_world))) =
     [\<lparr>interviewId = Some ''i1'', userId = Some ''u1'',
       transcript = [\<lparr>role = ''user'', content = ''Hello''\<rparr>]\<rparr>,
      \<lparr>interviewId = Some ''i1'', userId = Some ''u1'',
       transcript = [\<lparr>role = ''user'', content = ''Hello''\<rparr>,
                     \<lparr>role = ''assistant'', content = ''Goodbye''\<rparr>]\<rparr>] \<and>
   statuses example_services example_props
       [Call, CallStart, OnMessage (final_transcript ''user'' ''Hello''), Disconnect,
        OnMessage (final_transcript ''assistant'' ''Goodbye'')]
       (mounted example_world) = [CONNECTING, ACTIVE, ACTIVE, FINISHED, FINISHED] \<and>
   map fst (feedback (world (fst (run example_services example_props
       [Call, CallStart, OnMessage (final_transcript ''user'' ''Hello''), Disconnect,
        OnMessage (final_transcript ''assistant'' ''Goodbye'')]
       (mounted example_world))))) = [''feedback-'', ''feedback-i'']"
  by code_simp

text \<open>
  Claim C3. In a call of type \<^verbatim>\<open>generate\<close>, no run of the component, whatever the
  events and the transcript, calls \<^verbatim>\<open>createFeedback\<close>, and the server's world (with
  its feedback documents) is what it was; the step that enters \<^verbatim>\<open>FINISHED\<close> issues,
  after the commands of its handler, exactly the navigation to the landing page.
\<close>

theorem generate_call_never_creates_feedback:
  assumes "callType props = ''generate''"
  shows "feedbackCalls (snd (run sv props evs c)) = [] \<and>
         world (fst (run sv props evs c)) = world c \<and>
         (callStatus (agent c) \<noteq> FINISHED \<and>
          callStatus (agent (fst (step sv props e c))) = FINISHED \<longrightarrow>
            snd (step sv props e c) =
              snd (resume props e c) @ snd (handle props e (agent c)) @ [RouterPush ''/''])"
  using run_generate [OF assms] enter_FINISHED_generate [OF assms] by blast

text \<open>
  C3 on a generate call with a final transcript: no call of \<^verbatim>\<open>createFeedback\<close>, no
  feedback document, and the end of the call navigates to the landing page.
\<close>

theorem generate_call_never_creates_feedback_witness:
  "callType example_generate_props = ''generate'' \<and>
   feedbackCalls (snd (run example_services example_generate_props
       [Call, CallStart, OnMessage (final_transcript ''user'' ''Hello''), CallEnd]
       (mounted example_world))) = [] \<and>
   feedback (world (fst (run example_services example_generate_props
       [Call, CallStart, OnMessage (final_transcript ''user'' ''Hello''), CallEnd]
       (mounted example_world)))) = [] \<and>
   snd (step example_services example_generate_props CallEnd
       ((mounted example_world)\<lparr>agent := initialState\<lparr>callStatus := ACTIVE\<rparr>\<rparr>)) =
     [RouterPush ''/'']"
proof -
  let ?c = "(mounted example_world)\<lparr>agent := initialState\<lparr>callStatus := ACTIVE\<rparr>\<rparr>"
  have g: "callType example_generate_props = ''generate''"
    by (simp add: example_generate_props_def)
  have a: "callStatus (agent ?c) \<noteq> FINISHED"
    by simp
  have b: "callStatus (agent (fst (step example_services example_generate_props CallEnd ?c)))
      = FINISHED"
    by (simp add: state_step onCallEnd_def)
  from generate_call_never_creates_feedback [OF g, of example_services
      "[Call, CallStart, OnMessage (final_transcript ''user'' ''Hello''), CallEnd]"
      "mounted example_world"]
  have 1: "feedbackCalls (snd (run example_services example_generate_props
       [Call, CallStart, OnMessage (final_transcript ''user'' ''Hello''), CallEnd]
       (mounted example_world))) = []"
    and 2: "world (fst (run example_services example_generate_props
       [Call, CallStart, OnMessage (final_transcript ''user'' ''Hello''), CallEnd]
       (mounted example_world))) = example_world"
    by (simp_all add: mounted_def)
  from generate_call_never_creates_feedback [OF g, of example_services "[]" ?c CallEnd] a b
  have 3: "snd (step example_services example_generate_props CallEnd ?c) = [RouterPush ''/'']"
    by (simp add: resume_def)
  have 4: "feedback example_world = []"
    by (simp add: example_world_def)
  from g 1 2 3 4 show ?thesis by simp
qed

subsection \<open>Stopping a call\<close>

text \<open>
  Claim C9. From every configuration, \<^verbatim>\<open>CONNECTING\<close> included, \<^verbatim>\<open>handleDisconnect\<close>
  leaves the component in \<^verbatim>\<open>FINISHED\<close> and asks the channel to stop; the only state
  the step passes through is \<^verbatim>\<open>FINISHED\<close>. In particular a call that is started and
  stopped before the channel connects goes \<^verbatim>\<open>CONNECTING\<close>, \<^verbatim>\<open>FINISHED\<close> and is never
  \<^verbatim>\<open>ACTIVE\<close>.
\<close>

theorem handleDisconnect_goes_to_FINISHED:
  "callStatus (agent (fst (step sv props Disconnect c))) = FINISHED \<and>
   VapiStop \<in> set (snd (step sv props Disconnect c)) \<and>
   statuses sv props [Disconnect] c = [FINISHED] \<and>
   statuses sv props [Call, Disconnect] (mounted w) = [CONNECTING, FINISHED] \<and>
   ACTIVE \<notin> set (statuses sv props [Call, Disconnect] (mounted w))"
proof -
  have d: "callStatus (agent (fst (step sv props Disconnect c))) = FINISHED" for c
    by (simp add: state_step handleDisconnect_def)
  have k: "callStatus (agent (fst (step sv props Call c))) = CONNECTING" for c
    by (simp add: state_step handleCall_def)
  have v: "VapiStop \<in> set (snd (step sv props Disconnect c))"
    by (simp add: step_def resume_def Let_def case_prod_beta handleDisconnect_def)
  from d k v show ?thesis by (simp add: Let_def)
qed


end
